theory Spec2Isabelle
  imports Main
begin

section \<open>The username combobox of the review queue page (assets/queue.js)\<close>

text \<open>
  The script keeps three module variables (\<open>current_option\<close>, \<open>available_options\<close>,
  \<open>old_username\<close>) and reads and writes a handful of page elements. The model gathers
  the variables, the parts of the elements the script touches, the frames handed to
  \<open>socket.send\<close> and the lines written with \<open>console.log\<close> in one record, and every
  function of the script becomes a function on that record. Each listener runs to
  completion before the next one starts, so a run of the page is a sequence of listener
  calls.

  The socket is taken to be open, so that \<open>socket.send\<close> is an append to the frames sent.
  \<open>preventDefault\<close> and \<open>stopImmediatePropagation\<close> act on the event, not on the page, and
  are left out. The elements the script looks up by id are taken to exist, with one
  exception: the dashboard region \<open>main\<close>, which the script itself replaces when it assigns
  \<open>outerHTML\<close>. The page records whether an element of that id is still there, and every
  access to it through \<open>getElementById\<close> throws a TypeError when it is not.
\<close>

subsection \<open>Data\<close>

text \<open>
  One entry of the \<open>suggestions\<close> array of a \<open>UsernameSuggestions\<close> frame: the JSON \<open>null\<close>,
  or a value with the two string properties of the protocol.
\<close>

record suggestion =
  s_name :: string
  s_avatar_url :: string

datatype entry = NullEntry | Entry suggestion

text \<open>
  The value of the \<open>suggestions\<close> property. \<open>Missing\<close>: the property is absent or \<open>null\<close>,
  and reading \<open>length\<close> throws. \<open>NotIterable z\<close>: a number, a boolean or an object, none
  of which \<open>for ... of\<close> can run over; \<open>z\<close> says whether \<open>length === 0\<close> holds (an object
  with a property \<open>length\<close> that is \<open>0\<close>). \<open>Items\<close>: an array, with its entries in order.
  A string, and an array entry that is not \<open>null\<close> and lacks one of the two properties, are
  not represented.
\<close>

datatype payload = Missing | NotIterable bool | Items "entry list"

text \<open>
  The \<open>li\<close> element built for one suggestion. The \<open>img\<close> and \<open>span\<close> children and the
  click listener are added at the end of the loop body: \<open>None\<close> says that the element does
  not have them. \<open>click_name\<close> is the name captured by the click listener.
\<close>

record img_elem =
  img_classList :: "string list"
  img_src :: string

record li_elem =
  role :: string
  ariaSelected :: string
  classList :: "string list"
  img :: "img_elem option"
  span_innerText :: "string option"
  click_name :: "string option"

text \<open>The three frames the script sends, by their \<open>key\<close>.\<close>

datatype outbound =
    UsernameSelect string
  | UsernameSuggestions string
  | ResetUsername

text \<open>
  What \<open>JSON.parse\<close> gives for a frame, seen through the four properties the message
  listener reads. \<open>None\<close> is JavaScript's \<open>undefined\<close>: the property is absent (for
  \<open>key\<close> also: it is not a string, so it equals none of the listener's cases).
  \<open>main_contents\<close> and \<open>new_name\<close>, when present, are strings. A \<open>fragment\<close> is the string
  of \<open>main_contents\<close> together with what the HTML parser makes of it: \<open>has_main\<close> says
  whether the nodes it yields hold an element with the id \<open>main\<close>.
\<close>

record fragment =
  markup :: string
  has_main :: bool

record data =
  key :: "string option"
  main_contents :: "fragment option"
  new_name :: "string option"
  suggestions :: payload

text \<open>
  The text of a frame: text that is not JSON (\<open>JSON.parse\<close> throws), the JSON text
  \<open>null\<close>, or any other JSON value.
\<close>

datatype frame = NotJson | JsonNull | Json data

datatype error = SyntaxError | TypeError

datatype log_entry = Log string | LogUnknownMessage data

text \<open>
  The page. \<open>popup_children\<close> lists the children of the suggestions popup by their position
  in \<open>available_options\<close>: the script only ever appends to the popup the element it has just
  pushed on that array, and empties both together. \<open>input_focused\<close> says that the input is
  \<open>document.activeElement\<close>; \<open>input_selected\<close> that \<open>select()\<close> was called on it.
  \<open>main_present\<close> says that the document holds an element with the id \<open>main\<close>;
  \<open>main_html\<close> is the markup last put into the dashboard region or in its place,
  \<open>refresh_time\<close> the text of the element of that id.
\<close>

record page =
  current_option :: "int option"
  available_options :: "li_elem list"
  old_username :: "string option"
  input_value :: string
  input_focused :: bool
  input_selected :: bool
  popup_display :: string
  popup_children :: "nat list"
  main_present :: bool
  main_html :: string
  refresh_time :: string
  sent :: "outbound list"
  console :: "log_entry list"

text \<open>
  The outcome of a listener: \<open>Inr\<close> the page it leaves, or \<open>Inl\<close> the exception it throws
  together with the page as it is at the throw (what was assigned before stays assigned).
\<close>

type_synonym outcome = "(error \<times> page) + page"

text \<open>The page a listener leaves, whether it returned or threw.\<close>

definition page_after :: "outcome \<Rightarrow> page" where
  "page_after r = (case r of Inl (e, st) \<Rightarrow> st | Inr st \<Rightarrow> st)"

text \<open>A keyboard event: \<open>target_editable\<close> says that the event's target is an editable field.\<close>

record key_event =
  ev_key :: string
  shiftKey :: bool
  target_editable :: bool

text \<open>A node on the ancestor chain of a click target; the document node has neither property.\<close>

record node =
  node_id :: "string option"
  node_classList :: "string list option"

subsection \<open>The functions of the script\<close>

text \<open>String conversion of a value that is a string or \<open>undefined\<close>.\<close>

definition js_string :: "string option \<Rightarrow> string" where
  "js_string v = (case v of None \<Rightarrow> ''undefined'' | Some s \<Rightarrow> s)"

text \<open>\<open>n\<close> is the clock reading \<open>new Date().toLocaleTimeString()\<close>.\<close>

definition update_last_refreshed :: "string \<Rightarrow> page \<Rightarrow> page" where
  "update_last_refreshed n st = st\<lparr>refresh_time := ''last refresh: '' @ n\<rparr>"

definition close_popup :: "bool \<Rightarrow> page \<Rightarrow> page" where
  "close_popup reset st =
     (let st1 = (case old_username st of
                   None \<Rightarrow> st
                 | Some old \<Rightarrow> if reset then st\<lparr>input_value := old\<rparr> else st)
      in st1\<lparr>console := console st1 @ [Log ''reset old username''],
             old_username := None,
             popup_display := ''none'',
             popup_children := []\<rparr>)"

definition set_username :: "string option \<Rightarrow> page \<Rightarrow> outcome" where
  "set_username name st =
     (let st1 = close_popup False st
      in if \<not> main_present st1 then Inl (TypeError, st1)
         else Inr (st1\<lparr>main_html := [],
                      refresh_time := ''getting PR data for user '' @ js_string name,
                      input_value := js_string name\<rparr>))"

definition select_username :: "string \<Rightarrow> page \<Rightarrow> outcome" where
  "select_username name st =
     (if old_username st = Some name then Inr st
      else if \<not> main_present st then Inl (TypeError, st)
      else
        let st1 = st\<lparr>main_html := [],
                     refresh_time := ''getting PR data for user '' @ name\<rparr>;
            st2 = close_popup False st1
        in Inr (st2\<lparr>sent := sent st2 @ [UsernameSelect name]\<rparr>))"

text \<open>
  \<open>changeSelection\<close> takes the closure \<open>f\<close> as a function on the page. Writing
  \<open>ariaSelected\<close> on \<open>available_options[current_option]\<close> throws a TypeError when that
  entry is \<open>undefined\<close>: the index is \<open>null\<close> or outside the array.
\<close>

definition changeSelection :: "(page \<Rightarrow> page) \<Rightarrow> page \<Rightarrow> outcome" where
  "changeSelection f st =
     (if length (available_options st) = 0 then Inr st
      else
        let st1 = st\<lparr>available_options :=
                       map (\<lambda>i. i\<lparr>ariaSelected := ''false''\<rparr>) (available_options st)\<rparr>;
            st2 = f st1;
            n = int (length (available_options st2));
            st3 = (case current_option st2 of
                     None \<Rightarrow> st2
                   | Some c \<Rightarrow>
                       if c \<ge> n then st2\<lparr>current_option := Some (c - n)\<rparr>
                       else if c < 0 then st2\<lparr>current_option := Some (c + n)\<rparr>
                       else st2)
        in case current_option st3 of
             None \<Rightarrow> Inl (TypeError, st3)
           | Some c \<Rightarrow>
               if 0 \<le> c \<and> c < n
               then Inr (st3\<lparr>available_options :=
                           (available_options st3)
                             [nat c := (available_options st3 ! nat c)\<lparr>ariaSelected := ''true''\<rparr>]\<rparr>)
               else Inl (TypeError, st3))"

definition selectNext :: "page \<Rightarrow> outcome" where
  "selectNext =
     changeSelection (\<lambda>st. case current_option st of
                             None \<Rightarrow> st\<lparr>current_option := Some 0\<rparr>
                           | Some c \<Rightarrow> st\<lparr>current_option := Some (c + 1)\<rparr>)"

definition selectPrev :: "page \<Rightarrow> outcome" where
  "selectPrev =
     changeSelection (\<lambda>st. case current_option st of
                             None \<Rightarrow> st\<lparr>current_option := Some (int (length (available_options st)) - 1)\<rparr>
                           | Some c \<Rightarrow> st\<lparr>current_option := Some (c - 1)\<rparr>)"

text \<open>
  A click on an option element runs the listener attached in \<open>apply_username_suggestions\<close>,
  when the element has one. The click listener of the document, when the event reaches
  it, finds the class \<open>username-suggestion\<close> on the target's chain and returns.
\<close>

definition click_option :: "li_elem \<Rightarrow> page \<Rightarrow> outcome" where
  "click_option elem st =
     (case click_name elem of
        None \<Rightarrow> Inr st
      | Some name \<Rightarrow> select_username name st)"

text \<open>
  In \<open>confirmSelect\<close> the call \<open>click()\<close> dispatches the click event: an exception thrown by
  the element's listener is reported by the dispatch and does not reach the caller.
\<close>

definition confirmSelect :: "bool \<Rightarrow> page \<Rightarrow> outcome" where
  "confirmSelect enter_pressed st =
     (let st1 = st\<lparr>input_focused := False\<rparr>
      in if enter_pressed
         then select_username (input_value st1)
                (st1\<lparr>console := console st1 @ [Log ''force-select'']\<rparr>)
         else case current_option st1 of
                None \<Rightarrow> Inr (close_popup False st1)
              | Some c \<Rightarrow>
                  if 0 \<le> c \<and> c < int (length (available_options st1))
                  then Inr (page_after (click_option (available_options st1 ! nat c) st1))
                  else Inl (TypeError, st1))"

text \<open>
  The body of the \<open>for\<close> loop of \<open>apply_username_suggestions\<close>, and the loop. The element
  is pushed on \<open>available_options\<close> first. Reading \<open>avatar_url\<close> from a \<open>null\<close> entry then
  throws, and leaves on the array the element as it is at that point (\<open>bare_elem\<close>),
  which is not in the popup. For any other entry the body runs to its end
  (\<open>suggestion_elem\<close>).
\<close>

definition bare_elem :: li_elem where
  "bare_elem =
     \<lparr>role = ''option'',
      ariaSelected = ''false'',
      classList = [''username-suggestion'', ''author''],
      img = None,
      span_innerText = None,
      click_name = None\<rparr>"

definition suggestion_elem :: "suggestion \<Rightarrow> li_elem" where
  "suggestion_elem i =
     \<lparr>role = ''option'',
      ariaSelected = ''false'',
      classList = [''username-suggestion'', ''author''],
      img = Some \<lparr>img_classList = [''avatar''], img_src = s_avatar_url i\<rparr>,
      span_innerText = Some (s_name i),
      click_name = Some (s_name i)\<rparr>"

fun append_suggestions :: "entry list \<Rightarrow> page \<Rightarrow> outcome" where
  "append_suggestions [] st = Inr st"
| "append_suggestions (NullEntry # rest) st =
     Inl (TypeError, st\<lparr>available_options := available_options st @ [bare_elem]\<rparr>)"
| "append_suggestions (Entry i # rest) st =
     append_suggestions rest
       (st\<lparr>available_options := available_options st @ [suggestion_elem i],
           popup_children := popup_children st @ [length (available_options st)]\<rparr>)"

text \<open>
  With a value that is neither absent nor of length \<open>0\<close>, the variables are reset and the
  popup is shown and emptied before the loop starts; the loop throws at once on a value
  that is not iterable.
\<close>

definition apply_username_suggestions :: "payload \<Rightarrow> page \<Rightarrow> outcome" where
  "apply_username_suggestions sugg st =
     (let st1 = st\<lparr>current_option := None,
                  available_options := [],
                  popup_display := ''flex'',
                  popup_children := []\<rparr>
      in case sugg of
           Missing \<Rightarrow> Inl (TypeError, st)
         | NotIterable z \<Rightarrow> if z then Inr st else Inl (TypeError, st1)
         | Items ss \<Rightarrow> if length ss = 0 then Inr st else append_suggestions ss st1)"

definition ask_suggestions :: "page \<Rightarrow> page" where
  "ask_suggestions st = st\<lparr>sent := sent st @ [UsernameSuggestions (input_value st)]\<rparr>"

subsection \<open>The listeners\<close>

text \<open>
  The listener of the socket's \<open>message\<close> event; \<open>now\<close> is the clock reading. Assigning
  \<open>outerHTML\<close> puts the nodes of the fragment in the place of the element \<open>main\<close>; an
  absent \<open>main_contents\<close> is assigned as the text \<open>undefined\<close>.
\<close>

definition on_message :: "string \<Rightarrow> frame \<Rightarrow> page \<Rightarrow> outcome" where
  "on_message now fr st =
     (case fr of
        NotJson \<Rightarrow> Inl (SyntaxError, st)
      | JsonNull \<Rightarrow> Inl (TypeError, st)
      | Json d \<Rightarrow>
          if key d = Some ''UpdatePage''
          then (let st1 = st\<lparr>console := console st @ [Log ''replacing main'']\<rparr>
                in if \<not> main_present st1 then Inl (TypeError, st1)
                   else Inr (update_last_refreshed now
                               (case main_contents d of
                                  None \<Rightarrow> st1\<lparr>main_present := False, main_html := ''undefined''\<rparr>
                                | Some f \<Rightarrow> st1\<lparr>main_present := has_main f,
                                                main_html := markup f\<rparr>)))
          else if key d = Some ''SetUsername''
          then set_username (new_name d) st
          else if key d = Some ''UsernameSuggestions''
          then apply_username_suggestions (suggestions d) st
          else Inr (st\<lparr>console := console st @ [LogUnknownMessage d]\<rparr>))"

definition reset_click :: "page \<Rightarrow> outcome" where
  "reset_click st =
     (let st1 = close_popup False st
      in if \<not> main_present st1 then Inl (TypeError, st1)
         else Inr (st1\<lparr>main_html := [],
                      refresh_time := ''getting your PR data'',
                      sent := sent st1 @ [ResetUsername]\<rparr>))"

text \<open>The first statement of the input's click and keydown listeners.\<close>

definition set_old_username :: "page \<Rightarrow> page" where
  "set_old_username st =
     (case old_username st of
        None \<Rightarrow> st\<lparr>console := console st @ [Log ''set old username''],
                  old_username := Some (input_value st)\<rparr>
      | Some _ \<Rightarrow> st)"

definition input_click :: "page \<Rightarrow> page" where
  "input_click st = ask_suggestions (set_old_username st)"

definition input_keydown :: "key_event \<Rightarrow> page \<Rightarrow> outcome" where
  "input_keydown ev st =
     (let st1 = set_old_username st
      in if ev_key ev = ''ArrowDown'' then selectNext st1
         else if ev_key ev = ''ArrowUp'' then selectPrev st1
         else if ev_key ev = ''Tab''
         then (if shiftKey ev then selectPrev st1 else selectNext st1)
         else if ev_key ev = ''Enter'' then confirmSelect True st1
         else if ev_key ev = ''Esc'' then Inr (close_popup True st1)
         else Inr st1)"

definition document_keydown :: "key_event \<Rightarrow> page \<Rightarrow> page" where
  "document_keydown ev st =
     (if ev_key ev = ''/''
      then (if \<not> input_focused st
            then st\<lparr>input_focused := True, input_selected := True\<rparr>
            else st)
      else st)"

text \<open>
  The bounded walk of the document's click listener over the target and its ancestors:
  \<open>True\<close> when the listener returns from inside the loop.
\<close>

fun inside_combobox :: "nat \<Rightarrow> node list \<Rightarrow> bool" where
  "inside_combobox ctr [] = False"
| "inside_combobox ctr (target # ancestors) =
     (if ctr < 10
      then (if node_id target = Some ''change-username''
               \<or> (case node_classList target of
                     None \<Rightarrow> False
                   | Some cl \<Rightarrow> ''username-suggestion'' \<in> set cl)
            then True
            else inside_combobox (ctr + 1) ancestors)
      else False)"

definition document_click :: "node list \<Rightarrow> page \<Rightarrow> page" where
  "document_click chain st = (if inside_combobox 0 chain then st else close_popup True st)"

text \<open>The input's \<open>input\<close> listener runs after the browser has put the new text in the input.\<close>

definition input_input :: "page \<Rightarrow> page" where
  "input_input st = ask_suggestions st"

subsection \<open>Runs of the page\<close>

text \<open>
  Modelled from the spec: the page markup is not part of the script; the popup starts
  hidden, the dashboard region is there and nothing has been sent or logged. The text of
  the input, of the dashboard and of the refresh line are what the markup holds.
\<close>

definition initial_page :: "string \<Rightarrow> string \<Rightarrow> string \<Rightarrow> page" where
  "initial_page v m r =
     \<lparr>current_option = None,
      available_options = [],
      old_username = None,
      input_value = v,
      input_focused = False,
      input_selected = False,
      popup_display = ''none'',
      popup_children = [],
      main_present = True,
      main_html = m,
      refresh_time = r,
      sent = [],
      console = []\<rparr>"

text \<open>
  One listener call, or a call of \<open>confirmSelect\<close> without the Enter flag (no listener of
  the script makes that call). \<open>OptionClick k\<close> clicks the element at position \<open>k\<close> of
  \<open>available_options\<close>; \<open>InputInput v\<close> is an edit that leaves the text \<open>v\<close> in the input.
\<close>

datatype event =
    Message string frame
  | ResetClick
  | InputClick
  | InputKeydown key_event
  | DocumentKeydown key_event
  | DocumentClick "node list"
  | InputInput string
  | OptionClick nat
  | ConfirmSoft

fun step :: "page \<Rightarrow> event \<Rightarrow> page" where
  "step st (Message now fr) = page_after (on_message now fr st)"
| "step st ResetClick = page_after (reset_click st)"
| "step st InputClick = input_click st"
| "step st (InputKeydown ev) = page_after (input_keydown ev st)"
| "step st (DocumentKeydown ev) = document_keydown ev st"
| "step st (DocumentClick chain) = document_click chain st"
| "step st (InputInput v) = input_input (st\<lparr>input_value := v\<rparr>)"
| "step st (OptionClick k) =
     (if k < length (available_options st)
      then page_after (click_option (available_options st ! k) st)
      else st)"
| "step st ConfirmSoft = page_after (confirmSelect False st)"

definition run :: "page \<Rightarrow> event list \<Rightarrow> page" where
  "run st evs = foldl step st evs"

text \<open>The state invariant of the combobox, on the script's variables.\<close>

definition highlight_valid :: "page \<Rightarrow> bool" where
  "highlight_valid st =
     (case current_option st of
        None \<Rightarrow> True
      | Some i \<Rightarrow> 0 \<le> i \<and> i < int (length (available_options st)))"

definition page_inv :: "page \<Rightarrow> bool" where
  "page_inv st =
     (highlight_valid st
      \<and> (available_options st = [] \<longrightarrow> popup_display st = ''none'' \<and> current_option st = None))"

text \<open>
  The frames of the protocol and the malformed ones, but for a \<open>UsernameSuggestions\<close> frame
  whose payload is a number, a boolean or an object that \<open>for ... of\<close> cannot run over.
\<close>

fun within_protocol :: "event \<Rightarrow> bool" where
  "within_protocol (Message now (Json d)) =
     (key d = Some ''UsernameSuggestions'' \<longrightarrow> suggestions d \<noteq> NotIterable False)"
| "within_protocol e = True"

text \<open>Whether a listener returned rather than threw.\<close>

definition returned :: "outcome \<Rightarrow> bool" where
  "returned r = (case r of Inl _ \<Rightarrow> False | Inr _ \<Rightarrow> True)"

subsection \<open>Example frames, keys and pages\<close>

text \<open>The payload and the frame of a reply that lists the given suggestions.\<close>

definition reply :: "suggestion list \<Rightarrow> payload" where
  "reply ss = Items (map Entry ss)"

definition suggestions_frame :: "suggestion list \<Rightarrow> frame" where
  "suggestions_frame ss =
     Json \<lparr>key = Some ''UsernameSuggestions'', main_contents = None, new_name = None,
           suggestions = reply ss\<rparr>"

definition alice_bob :: "suggestion list" where
  "alice_bob = [\<lparr>s_name = ''alice'', s_avatar_url = ''a.png''\<rparr>,
                \<lparr>s_name = ''bob'', s_avatar_url = ''b.png''\<rparr>]"

definition key_press :: "string \<Rightarrow> key_event" where
  "key_press k = \<lparr>ev_key = k, shiftKey = False, target_editable = True\<rparr>"

text \<open>The input is clicked, two suggestions arrive, ArrowDown is pressed twice.\<close>

definition two_options_second :: page where
  "two_options_second =
     run (initial_page ''alice'' [] [])
       [InputClick, Message ''12:00'' (suggestions_frame alice_bob),
        InputKeydown (key_press ''ArrowDown''), InputKeydown (key_press ''ArrowDown'')]"

text \<open>The input showing \<open>alice\<close> is clicked and the text is replaced by another name.\<close>

definition editing_octocat :: page where
  "editing_octocat = run (initial_page ''alice'' [] []) [InputClick, InputInput ''octocat'']"

definition editing_bob :: page where
  "editing_bob = run (initial_page ''alice'' [] []) [InputClick, InputInput ''bob'']"

text \<open>The input showing \<open>alice\<close> is clicked and nothing else happens.\<close>

definition alice_clicked :: page where
  "alice_clicked = run (initial_page ''alice'' ''<ul></ul>'' ''last refresh: 12:00'') [InputClick]"

text \<open>A frame with a discriminator the listener does not know.\<close>

definition unknown_data :: data where
  "unknown_data =
     \<lparr>key = Some ''Ping'', main_contents = None, new_name = None, suggestions = Missing\<rparr>"

text \<open>
  Two suggestions are shown and the first is highlighted; the user then types \<open>bob\<close>.
\<close>

definition bob_typed_over_suggestions :: page where
  "bob_typed_over_suggestions =
     run (initial_page ''alice'' [] [])
       [InputClick, Message ''12:00'' (suggestions_frame alice_bob),
        InputKeydown (key_press ''ArrowDown''), InputInput ''bob'']"

text \<open>Two suggestions are shown and ArrowUp highlights the last one, \<open>bob\<close>.\<close>

definition bob_highlighted :: page where
  "bob_highlighted =
     run (initial_page ''alice'' [] [])
       [InputClick, Message ''12:00'' (suggestions_frame alice_bob),
        InputKeydown (key_press ''ArrowUp'')]"

text \<open>
  The input shows \<open>alice\<close> and its text is replaced by \<open>octocat\<close> through an \<open>input\<close> event
  alone, with no click and no key in the input before it (a paste from the context menu,
  a drop).
\<close>

definition pasted_octocat :: page where
  "pasted_octocat = run (initial_page ''alice'' [] []) [InputInput ''octocat'']"

text \<open>The ancestor chain of a click on the dashboard: the region, the body, the document.\<close>

definition outside_chain :: "node list" where
  "outside_chain =
     [\<lparr>node_id = Some ''main'', node_classList = Some []\<rparr>,
      \<lparr>node_id = Some [], node_classList = Some []\<rparr>,
      \<lparr>node_id = None, node_classList = None\<rparr>]"

text \<open>
  The input showing \<open>alice\<close> is clicked, then the dashboard is clicked, which ends the
  session; the reply to the query sent by the first click arrives after that and opens
  the popup.
\<close>

definition alice_offered_late :: page where
  "alice_offered_late =
     run (initial_page ''alice'' ''<ul></ul>'' ''last refresh: 12:00'')
       [InputClick, DocumentClick outside_chain, Message ''12:01'' (suggestions_frame alice_bob)]"

text \<open>
  The slash key gives the input the focus, \<open>b\<close> is typed and two suggestions arrive.
\<close>

definition focused_with_suggestions :: page where
  "focused_with_suggestions =
     run (initial_page ''alice'' [] [])
       [DocumentKeydown \<lparr>ev_key = ''/'', shiftKey = False, target_editable = False\<rparr>,
        InputKeydown (key_press ''b''), InputInput ''b'',
        Message ''12:00'' (suggestions_frame alice_bob)]"

text \<open>A reply with a single suggestion.\<close>

definition carol :: "suggestion list" where
  "carol = [\<lparr>s_name = ''carol'', s_avatar_url = ''c.png''\<rparr>]"

text \<open>
  The page with the four things a suggestions reply assigns blanked out: what is left is
  what a reply does not touch.
\<close>

definition outside_popup :: "page \<Rightarrow> page" where
  "outside_popup st =
     st\<lparr>current_option := None, available_options := [], popup_display := [], popup_children := []\<rparr>"

section \<open>Properties\<close>

lemmas script_defs =
  js_string_def update_last_refreshed_def close_popup_def set_username_def select_username_def
  changeSelection_def selectNext_def selectPrev_def click_option_def confirmSelect_def
  bare_elem_def suggestion_elem_def apply_username_suggestions_def ask_suggestions_def
  on_message_def reset_click_def set_old_username_def input_click_def input_keydown_def
  document_keydown_def document_click_def input_input_def initial_page_def page_after_def
  run_def returned_def reply_def suggestions_frame_def alice_bob_def key_press_def

subsection \<open>Navigation\<close>

lemma wrap_next:
  fixes i n :: int
  assumes "0 \<le> i" "i < n"
  shows "(i + 1) mod n = (if n \<le> i + 1 then i + 1 - n else i + 1)"
proof (cases "n \<le> i + 1")
  case True
  with assms have "i + 1 = n" by simp
  then show ?thesis by simp
next
  case False
  with assms show ?thesis by simp
qed

lemma wrap_prev:
  fixes i n :: int
  assumes "0 \<le> i" "i < n"
  shows "(i - 1) mod n = (if i - 1 < 0 then i - 1 + n else i - 1)"
proof (cases "i - 1 < 0")
  case True
  with assms have "i = 0" and "0 < n" by simp_all
  then show ?thesis by (simp add: zmod_minus1)
next
  case False
  with assms show ?thesis by simp
qed

lemma selectNext_index:
  "current_option st = Some i \<Longrightarrow> 0 \<le> i \<Longrightarrow> i < int (length (available_options st)) \<Longrightarrow>
   \<exists>st'. selectNext st = Inr st'
      \<and> current_option st' = Some ((i + 1) mod int (length (available_options st)))
      \<and> length (available_options st') = length (available_options st)"
  by (auto simp add: selectNext_def changeSelection_def Let_def wrap_next)

lemma selectPrev_index:
  "current_option st = Some i \<Longrightarrow> 0 \<le> i \<Longrightarrow> i < int (length (available_options st)) \<Longrightarrow>
   \<exists>st'. selectPrev st = Inr st'
      \<and> current_option st' = Some ((i - 1 + int (length (available_options st))) mod int (length (available_options st)))
      \<and> length (available_options st') = length (available_options st)"
  by (auto simp add: selectPrev_def changeSelection_def Let_def wrap_prev)

text \<open>
  Claim C9. With \<open>n\<close> options, \<open>n > 0\<close>: from the highlighted index \<open>i\<close>, a valid index,
  \<open>selectNext\<close> leaves \<open>(i + 1) mod n\<close> and \<open>selectPrev\<close> leaves \<open>(i - 1 + n) mod n\<close>, both
  in \<open>[0, n - 1]\<close>; from no highlight, \<open>selectNext\<close> leaves \<open>0\<close> and \<open>selectPrev\<close> leaves
  \<open>n - 1\<close>. With no options both return the page as it is.
\<close>

theorem navigation_wraps_around:
  assumes "n = int (length (available_options st))"
  shows "(available_options st = [] \<longrightarrow> selectNext st = Inr st \<and> selectPrev st = Inr st)
       \<and> (available_options st \<noteq> [] \<and> current_option st = None \<longrightarrow>
            returned (selectNext st) \<and> current_option (page_after (selectNext st)) = Some 0
          \<and> returned (selectPrev st) \<and> current_option (page_after (selectPrev st)) = Some (n - 1))
       \<and> (available_options st \<noteq> [] \<and> current_option st = Some i \<and> 0 \<le> i \<and> i < n \<longrightarrow>
            returned (selectNext st)
          \<and> current_option (page_after (selectNext st)) = Some ((i + 1) mod n)
          \<and> returned (selectPrev st)
          \<and> current_option (page_after (selectPrev st)) = Some ((i - 1 + n) mod n)
          \<and> 0 \<le> (i + 1) mod n \<and> (i + 1) mod n < n
          \<and> 0 \<le> (i - 1 + n) mod n \<and> (i - 1 + n) mod n < n)"
proof (intro conjI impI)
  assume "available_options st = []"
  then show "selectNext st = Inr st" and "selectPrev st = Inr st"
    by (simp_all add: selectNext_def selectPrev_def changeSelection_def)
next
  assume h: "available_options st \<noteq> [] \<and> current_option st = None"
  then have pos: "0 < length (available_options st)" by simp
  from h pos show "returned (selectNext st)"
    and "current_option (page_after (selectNext st)) = Some 0"
    by (simp_all add: selectNext_def changeSelection_def Let_def returned_def page_after_def)
  from h pos assms show "returned (selectPrev st)"
    and "current_option (page_after (selectPrev st)) = Some (n - 1)"
    by (simp_all add: selectPrev_def changeSelection_def Let_def returned_def page_after_def)
next
  assume h: "available_options st \<noteq> [] \<and> current_option st = Some i \<and> 0 \<le> i \<and> i < n"
  with assms obtain s where s: "selectNext st = Inr s"
     "current_option s = Some ((i + 1) mod n)"
    using selectNext_index [of st i] by auto
  from h assms obtain p where p: "selectPrev st = Inr p"
     "current_option p = Some ((i - 1 + n) mod n)"
    using selectPrev_index [of st i] by auto
  from s show "returned (selectNext st)"
    and "current_option (page_after (selectNext st)) = Some ((i + 1) mod n)"
    by (simp_all add: returned_def page_after_def)
  from p show "returned (selectPrev st)"
    and "current_option (page_after (selectPrev st)) = Some ((i - 1 + n) mod n)"
    by (simp_all add: returned_def page_after_def)
  from h have "0 < n" by simp
  then show "0 \<le> (i + 1) mod n" and "(i + 1) mod n < n"
    and "0 \<le> (i - 1 + n) mod n" and "(i - 1 + n) mod n < n"
    by simp_all
qed

theorem navigation_wraps_around_witness:
  "available_options two_options_second \<noteq> []
   \<and> current_option two_options_second = Some 1
   \<and> int (length (available_options two_options_second)) = 2
   \<and> returned (selectNext two_options_second)
   \<and> current_option (page_after (selectNext two_options_second)) = Some 0
   \<and> returned (selectPrev two_options_second)
   \<and> current_option (page_after (selectPrev two_options_second)) = Some 0"
proof -
  have a: "available_options two_options_second \<noteq> []"
    and c: "current_option two_options_second = Some 1"
    and l: "int (length (available_options two_options_second)) = 2"
    by (simp_all add: two_options_second_def script_defs)
  from l have n: "(2::int) = int (length (available_options two_options_second))" by simp
  show ?thesis
    using navigation_wraps_around [OF n, of 1] a c l by simp
qed

subsection \<open>Forced confirm\<close>

text \<open>
  Enter in the input when the session was opened before the edit: the popup is not open,
  the input shows \<open>octocat\<close> and \<open>old_username\<close> holds another name. The listener returns and
  exactly one \<open>UsernameSelect\<close> frame, for \<open>octocat\<close>, is added to the frames sent.
\<close>

lemma enter_sends_select_once:
  assumes "popup_display st \<noteq> ''flex''"
    and "input_value st = ''octocat''"
    and "old_username st = Some old"
    and "old \<noteq> ''octocat''"
    and "main_present st"
    and "ev_key ev = ''Enter''"
  shows "returned (input_keydown ev st)
       \<and> sent (page_after (input_keydown ev st)) = sent st @ [UsernameSelect ''octocat'']"
  using assms
  by (simp add: input_keydown_def set_old_username_def confirmSelect_def select_username_def
      close_popup_def returned_def page_after_def Let_def)

lemma enter_sends_select_once_example:
  "old_username editing_octocat = Some ''alice''
   \<and> sent (page_after (input_keydown (key_press ''Enter'') editing_octocat))
       = [UsernameSuggestions ''alice'', UsernameSuggestions ''octocat'', UsernameSelect ''octocat'']"
  by (simp add: editing_octocat_def script_defs)

text \<open>
  Claim C1. The page shows \<open>alice\<close>, the popup is hidden, and the text of the input is
  replaced by \<open>octocat\<close> through an \<open>input\<close> event alone: the \<open>input\<close> listener, unlike the
  click and keydown listeners, does not record the text the input showed before. The
  keydown listener then records \<open>octocat\<close> itself as \<open>old_username\<close> when Enter arrives, and
  \<open>select_username\<close> finds the submitted name equal to it: Enter returns and no
  \<open>UsernameSelect\<close> frame is sent.
\<close>

theorem enter_after_paste_sends_nothing:
  "old_username pasted_octocat = None
   \<and> popup_display pasted_octocat = ''none''
   \<and> input_value pasted_octocat = ''octocat''
   \<and> main_present pasted_octocat
   \<and> sent pasted_octocat = [UsernameSuggestions ''octocat'']
   \<and> returned (input_keydown (key_press ''Enter'') pasted_octocat)
   \<and> old_username (set_old_username pasted_octocat) = Some ''octocat''
   \<and> sent (page_after (input_keydown (key_press ''Enter'') pasted_octocat))
       = [UsernameSuggestions ''octocat'']"
  by (simp add: pasted_octocat_def script_defs)

subsection \<open>Commit of the name on display\<close>

text \<open>
  While \<open>old_username\<close> holds the name, a commit of it changes nothing: \<open>select_username\<close>
  and an option's click listener return the page as it is, and Enter in the input, when
  the input shows the recorded text, sends nothing and leaves the dashboard region and
  the refresh line as they are.
\<close>

lemma same_name_commit_is_noop:
  "(old_username st = Some name \<longrightarrow>
      select_username name st = Inr st
    \<and> (click_name elem = Some name \<longrightarrow> click_option elem st = Inr st))
   \<and> (old_username st = Some (input_value st) \<and> ev_key ev = ''Enter'' \<longrightarrow>
        returned (input_keydown ev st)
      \<and> sent (page_after (input_keydown ev st)) = sent st
      \<and> main_html (page_after (input_keydown ev st)) = main_html st
      \<and> refresh_time (page_after (input_keydown ev st)) = refresh_time st)"
  by (auto simp add: input_keydown_def set_old_username_def confirmSelect_def select_username_def
      click_option_def returned_def page_after_def Let_def)

text \<open>
  Claim C7. The page shows \<open>alice\<close>, the identity on display. The input is clicked and the
  dashboard is clicked, which ends the session and clears \<open>old_username\<close>; the reply to the
  query of the first click then opens the popup. A click on the option \<open>alice\<close> finds
  nothing recorded to compare with: a \<open>UsernameSelect\<close> frame for \<open>alice\<close> is sent, the
  dashboard region is emptied and the refresh line is replaced. Enter in the input, on
  the same page, records the text on display first and sends nothing.
\<close>

theorem displayed_identity_is_sent_again:
  "old_username alice_offered_late = None
   \<and> input_value alice_offered_late = ''alice''
   \<and> popup_display alice_offered_late = ''flex''
   \<and> click_name (available_options alice_offered_late ! 0) = Some ''alice''
   \<and> sent alice_offered_late = [UsernameSuggestions ''alice'']
   \<and> main_html alice_offered_late = ''<ul></ul>''
   \<and> refresh_time alice_offered_late = ''last refresh: 12:00''
   \<and> sent (step alice_offered_late (OptionClick 0))
       = [UsernameSuggestions ''alice'', UsernameSelect ''alice'']
   \<and> main_html (step alice_offered_late (OptionClick 0)) = []
   \<and> refresh_time (step alice_offered_late (OptionClick 0)) = ''getting PR data for user alice''
   \<and> sent (step alice_offered_late (InputKeydown (key_press ''Enter'')))
       = [UsernameSuggestions ''alice'']"
  by (simp add: alice_offered_late_def outside_chain_def script_defs)

subsection \<open>Soft confirm\<close>

text \<open>
  Claim C5, as stated, after an edit from \<open>alice\<close> to \<open>bob\<close> with nothing highlighted:
  \<open>confirmSelect\<close> without the Enter flag leaves \<open>bob\<close> in the input, where a cancel
  (\<open>close_popup\<close> with the reset flag) puts \<open>alice\<close> back.
\<close>

theorem soft_confirm_keeps_edited_text:
  "current_option editing_bob = None
   \<and> old_username editing_bob = Some ''alice''
   \<and> input_value (page_after (confirmSelect False editing_bob)) = ''bob''
   \<and> input_value (close_popup True editing_bob) = ''alice''"
  by (simp add: editing_bob_def script_defs)

text \<open>
  Claim C5, amended. With nothing highlighted, \<open>confirmSelect\<close> without the Enter flag
  blurs the input and calls \<open>close_popup\<close> without the reset flag: the popup is hidden and
  emptied, the recorded text is cleared, nothing is sent, and the input keeps the text it
  shows (it is not restored).
\<close>

theorem soft_confirm_without_highlight:
  assumes "current_option st = None"
  shows "confirmSelect False st = Inr (close_popup False (st\<lparr>input_focused := False\<rparr>))
       \<and> popup_display (page_after (confirmSelect False st)) = ''none''
       \<and> popup_children (page_after (confirmSelect False st)) = []
       \<and> old_username (page_after (confirmSelect False st)) = None
       \<and> sent (page_after (confirmSelect False st)) = sent st
       \<and> \<not> input_focused (page_after (confirmSelect False st))
       \<and> input_value (page_after (confirmSelect False st)) = input_value st"
  using assms
  by (simp add: confirmSelect_def close_popup_def page_after_def Let_def split: option.split)

theorem soft_confirm_without_highlight_witness:
  "current_option editing_bob = None
   \<and> popup_display (page_after (confirmSelect False editing_bob)) = ''none''
   \<and> old_username (page_after (confirmSelect False editing_bob)) = None
   \<and> sent (page_after (confirmSelect False editing_bob))
       = [UsernameSuggestions ''alice'', UsernameSuggestions ''bob'']
   \<and> input_value (page_after (confirmSelect False editing_bob)) = ''bob''"
proof -
  have c: "current_option editing_bob = None"
    and s: "sent editing_bob = [UsernameSuggestions ''alice'', UsernameSuggestions ''bob'']"
    and v: "input_value editing_bob = ''bob''"
    by (simp_all add: editing_bob_def script_defs)
  show ?thesis
    using soft_confirm_without_highlight [OF c] c s v by auto
qed

subsection \<open>The global slash key\<close>

text \<open>
  Claim C6, as stated, for a slash typed in an editable field other than the input: the
  listener does not look at the event's target, and moves the focus to the input.
\<close>

theorem slash_key_in_editable_field_takes_focus:
  "ev_key (key_press ''/'') = ''/''
   \<and> target_editable (key_press ''/'')
   \<and> \<not> input_focused (initial_page [] [] [])
   \<and> input_focused (document_keydown (key_press ''/'') (initial_page [] [] []))
   \<and> document_keydown (key_press ''/'') (initial_page [] [] []) \<noteq> initial_page [] [] []"
  by (simp add: script_defs)

text \<open>
  Claim C6, amended. On a keydown of \<open>/\<close>, wherever the event comes from: when the input
  does not have the focus it is focused and its text selected; when it has the focus the
  listener changes nothing.
\<close>

theorem slash_key_focuses_input:
  assumes "ev_key ev = ''/''"
  shows "(\<not> input_focused st \<longrightarrow>
            document_keydown ev st = st\<lparr>input_focused := True, input_selected := True\<rparr>)
       \<and> (input_focused st \<longrightarrow> document_keydown ev st = st)"
  using assms by (simp add: document_keydown_def)

theorem slash_key_focuses_input_witness:
  "ev_key \<lparr>ev_key = ''/'', shiftKey = False, target_editable = False\<rparr> = ''/''
   \<and> \<not> input_focused alice_clicked
   \<and> input_focused (document_keydown \<lparr>ev_key = ''/'', shiftKey = False, target_editable = False\<rparr> alice_clicked)
   \<and> input_selected (document_keydown \<lparr>ev_key = ''/'', shiftKey = False, target_editable = False\<rparr> alice_clicked)"
proof -
  have k: "ev_key \<lparr>ev_key = ''/'', shiftKey = False, target_editable = False\<rparr> = ''/''" by simp
  have f: "\<not> input_focused alice_clicked" by (simp add: alice_clicked_def script_defs)
  show ?thesis
    using slash_key_focuses_input [OF k, of alice_clicked] f by simp
qed

subsection \<open>Inbound frames\<close>

lemma close_popup_main_present: "main_present (close_popup reset st) = main_present st"
  by (simp add: close_popup_def Let_def split: option.split)

text \<open>
  A frame with a known key can make the listener throw after the page has changed: a
  \<open>suggestions\<close> value that is not iterable, when the variables are reset and the popup is
  shown; a \<open>SetUsername\<close> frame once the element \<open>main\<close> is gone, when the popup is closed
  and the record of the session cleared.
\<close>

lemma known_key_frames_throw_midway:
  "(key d = Some ''UsernameSuggestions'' \<and> suggestions d = NotIterable False \<longrightarrow>
      on_message now (Json d) st
        = Inl (TypeError, st\<lparr>current_option := None, available_options := [],
                              popup_display := ''flex'', popup_children := []\<rparr>))
   \<and> (key d = Some ''SetUsername'' \<and> \<not> main_present st \<longrightarrow>
      on_message now (Json d) st = Inl (TypeError, close_popup False st))"
  by (simp add: on_message_def apply_username_suggestions_def set_username_def
        close_popup_main_present Let_def)

text \<open>
  Claim C2, as stated, for a frame whose text is not JSON: \<open>JSON.parse\<close> throws and the
  listener has no handler for it.
\<close>

theorem text_that_is_not_json_throws:
  "on_message ''12:00'' NotJson (initial_page [] [] []) = Inl (SyntaxError, initial_page [] [] [])
   \<and> \<not> returned (on_message ''12:00'' NotJson (initial_page [] [] []))"
  by (simp add: on_message_def returned_def)

text \<open>
  Claim C2, amended. A frame that parses to a value other than \<open>null\<close> and whose \<open>key\<close> is
  none of the three known ones is logged and dropped: the listener returns and only the
  console has changed. A frame that is not JSON, or is the JSON \<open>null\<close>, makes the listener
  throw before it has assigned anything, so with the page as it was.
\<close>

theorem unknown_key_is_logged_and_dropped:
  "(key d \<noteq> Some ''UpdatePage'' \<and> key d \<noteq> Some ''SetUsername''
        \<and> key d \<noteq> Some ''UsernameSuggestions'' \<longrightarrow>
      on_message now (Json d) st = Inr (st\<lparr>console := console st @ [LogUnknownMessage d]\<rparr>))
   \<and> on_message now NotJson st = Inl (SyntaxError, st)
   \<and> on_message now JsonNull st = Inl (TypeError, st)"
proof (intro conjI impI)
  assume "key d \<noteq> Some ''UpdatePage'' \<and> key d \<noteq> Some ''SetUsername''
        \<and> key d \<noteq> Some ''UsernameSuggestions''"
  then show "on_message now (Json d) st = Inr (st\<lparr>console := console st @ [LogUnknownMessage d]\<rparr>)"
    by (simp add: on_message_def)
next
  show "on_message now NotJson st = Inl (SyntaxError, st)"
    and "on_message now JsonNull st = Inl (TypeError, st)"
    by (simp_all add: on_message_def)
qed

theorem unknown_key_is_logged_and_dropped_witness:
  "key unknown_data = Some ''Ping''
   \<and> on_message ''12:00'' (Json unknown_data) two_options_second
       = Inr (two_options_second\<lparr>console := console two_options_second @ [LogUnknownMessage unknown_data]\<rparr>)
   \<and> on_message ''12:00'' NotJson two_options_second = Inl (SyntaxError, two_options_second)"
proof -
  have k: "key unknown_data = Some ''Ping''" by (simp add: unknown_data_def)
  have u: "key unknown_data \<noteq> Some ''UpdatePage'' \<and> key unknown_data \<noteq> Some ''SetUsername''
        \<and> key unknown_data \<noteq> Some ''UsernameSuggestions''"
    by (simp add: unknown_data_def)
  show ?thesis
    using unknown_key_is_logged_and_dropped
            [of unknown_data "''12:00''" two_options_second] k u
    by blast
qed

subsection \<open>The Escape key\<close>

text \<open>What the listener does for the key value \<open>Esc\<close>, the one it compares with.\<close>

lemma esc_key_cancels:
  assumes "ev_key ev = ''Esc''" and "old_username st = Some old"
  shows "input_keydown ev st = Inr (close_popup True st)"
    and "input_value (close_popup True st) = old"
    and "popup_display (close_popup True st) = ''none''"
    and "sent (close_popup True st) = sent st"
  using assms by (simp_all add: input_keydown_def set_old_username_def close_popup_def)

text \<open>
  Claim C3. The key value of the Escape key is \<open>Escape\<close>; the script compares with \<open>Esc\<close>.
  After an edit from \<open>alice\<close> to \<open>bob\<close>, a keydown with the key \<open>Escape\<close> matches no case
  of the listener: the page stays as it is and the input still shows \<open>bob\<close>.
\<close>

theorem escape_key_is_not_handled:
  "old_username editing_bob = Some ''alice''
   \<and> input_value editing_bob = ''bob''
   \<and> input_keydown (key_press ''Escape'') editing_bob = Inr editing_bob
   \<and> input_value (page_after (input_keydown (key_press ''Escape'') editing_bob)) = ''bob''"
  by (simp add: editing_bob_def script_defs)

subsection \<open>Commit\<close>

text \<open>
  Claim C4, as stated, at two pages. With two suggestions shown and the first highlighted,
  \<open>bob\<close> is typed and Enter pressed: the frame is sent and the popup is hidden, but
  \<open>available_options\<close> still holds both elements and \<open>current_option\<close> is still \<open>0\<close>, so
  that a following \<open>selectNext\<close> moves the highlight to \<open>1\<close> instead of doing nothing.
  With the focus in the input and two suggestions shown, the option \<open>bob\<close> is clicked: the
  frame is sent, and the input still has the focus, since the option's listener calls
  \<open>select_username\<close> and nothing else.
\<close>

theorem commit_keeps_options_and_click_keeps_focus:
  "old_username bob_typed_over_suggestions = Some ''alice''
   \<and> input_value bob_typed_over_suggestions = ''bob''
   \<and> sent (page_after (input_keydown (key_press ''Enter'') bob_typed_over_suggestions))
       = sent bob_typed_over_suggestions @ [UsernameSelect ''bob'']
   \<and> popup_display (page_after (input_keydown (key_press ''Enter'') bob_typed_over_suggestions)) = ''none''
   \<and> map click_name (available_options (page_after (input_keydown (key_press ''Enter'') bob_typed_over_suggestions)))
       = [Some ''alice'', Some ''bob'']
   \<and> current_option (page_after (input_keydown (key_press ''Enter'') bob_typed_over_suggestions)) = Some 0
   \<and> current_option
         (page_after (selectNext
            (page_after (input_keydown (key_press ''Enter'') bob_typed_over_suggestions)))) = Some 1
   \<and> input_focused focused_with_suggestions
   \<and> old_username focused_with_suggestions = Some ''alice''
   \<and> click_name (available_options focused_with_suggestions ! 1) = Some ''bob''
   \<and> sent (step focused_with_suggestions (OptionClick 1))
       = sent focused_with_suggestions @ [UsernameSelect ''bob'']
   \<and> input_focused (step focused_with_suggestions (OptionClick 1))"
  by (simp add: bob_typed_over_suggestions_def focused_with_suggestions_def script_defs)

lemma select_username_commits:
  assumes "old_username st \<noteq> Some name" and "main_present st"
  shows "returned (select_username name st)"
    and "popup_display (page_after (select_username name st)) = ''none''"
    and "popup_children (page_after (select_username name st)) = []"
    and "old_username (page_after (select_username name st)) = None"
    and "input_focused (page_after (select_username name st)) = input_focused st"
    and "sent (page_after (select_username name st)) = sent st @ [UsernameSelect name]"
    and "available_options (page_after (select_username name st)) = available_options st"
    and "current_option (page_after (select_username name st)) = current_option st"
    and "main_html (page_after (select_username name st)) = []"
    and "refresh_time (page_after (select_username name st)) = ''getting PR data for user '' @ name"
  using assms
  by (simp_all add: select_username_def close_popup_def returned_def page_after_def Let_def
        split: option.split)

text \<open>
  Claim C4, amended. On a page that has its dashboard region, after a commit of a name
  other than the recorded one, by Enter (\<open>confirmSelect\<close> with the flag, which commits the
  input's text) or by a click on an option: the popup is hidden and emptied, the recorded
  text is cleared, and exactly one \<open>UsernameSelect\<close> frame for the name has been added to the
  frames sent; \<open>available_options\<close> and \<open>current_option\<close> are as before. \<open>confirmSelect\<close> has
  blurred the input; the click on an option leaves the focus where it was. A call of
  \<open>confirmSelect\<close> without the flag on a highlighted option blurs the input and then clicks
  the option.
\<close>

theorem commit_closes_and_sends_once:
  "(main_present st \<and> old_username st \<noteq> Some (input_value st) \<longrightarrow>
      returned (confirmSelect True st)
    \<and> popup_display (page_after (confirmSelect True st)) = ''none''
    \<and> popup_children (page_after (confirmSelect True st)) = []
    \<and> old_username (page_after (confirmSelect True st)) = None
    \<and> \<not> input_focused (page_after (confirmSelect True st))
    \<and> sent (page_after (confirmSelect True st)) = sent st @ [UsernameSelect (input_value st)]
    \<and> available_options (page_after (confirmSelect True st)) = available_options st
    \<and> current_option (page_after (confirmSelect True st)) = current_option st)
   \<and> (main_present st \<and> click_name elem = Some name \<and> old_username st \<noteq> Some name \<longrightarrow>
      returned (click_option elem st)
    \<and> popup_display (page_after (click_option elem st)) = ''none''
    \<and> popup_children (page_after (click_option elem st)) = []
    \<and> old_username (page_after (click_option elem st)) = None
    \<and> input_focused (page_after (click_option elem st)) = input_focused st
    \<and> sent (page_after (click_option elem st)) = sent st @ [UsernameSelect name]
    \<and> available_options (page_after (click_option elem st)) = available_options st
    \<and> current_option (page_after (click_option elem st)) = current_option st)
   \<and> (main_present st \<and> current_option st = Some i \<and> 0 \<le> i
        \<and> i < int (length (available_options st))
        \<and> click_name (available_options st ! nat i) = Some name \<and> old_username st \<noteq> Some name \<longrightarrow>
      returned (confirmSelect False st)
    \<and> popup_display (page_after (confirmSelect False st)) = ''none''
    \<and> popup_children (page_after (confirmSelect False st)) = []
    \<and> old_username (page_after (confirmSelect False st)) = None
    \<and> \<not> input_focused (page_after (confirmSelect False st))
    \<and> sent (page_after (confirmSelect False st)) = sent st @ [UsernameSelect name]
    \<and> available_options (page_after (confirmSelect False st)) = available_options st
    \<and> current_option (page_after (confirmSelect False st)) = current_option st)"
proof (intro conjI impI)
  assume h: "main_present st \<and> old_username st \<noteq> Some (input_value st)"
  let ?s1 = "st\<lparr>input_focused := False, console := console st @ [Log ''force-select'']\<rparr>"
  have r: "confirmSelect True st = select_username (input_value st) ?s1"
    by (simp add: confirmSelect_def Let_def)
  from h have h1: "old_username ?s1 \<noteq> Some (input_value st)" and m1: "main_present ?s1"
    by simp_all
  from r select_username_commits [OF h1 m1]
  show "returned (confirmSelect True st)"
    and "popup_display (page_after (confirmSelect True st)) = ''none''"
    and "popup_children (page_after (confirmSelect True st)) = []"
    and "old_username (page_after (confirmSelect True st)) = None"
    and "\<not> input_focused (page_after (confirmSelect True st))"
    and "sent (page_after (confirmSelect True st)) = sent st @ [UsernameSelect (input_value st)]"
    and "available_options (page_after (confirmSelect True st)) = available_options st"
    and "current_option (page_after (confirmSelect True st)) = current_option st"
    by simp_all
next
  assume h: "main_present st \<and> click_name elem = Some name \<and> old_username st \<noteq> Some name"
  then have h1: "old_username st \<noteq> Some name" and m1: "main_present st" by simp_all
  from h have r: "click_option elem st = select_username name st"
    by (simp add: click_option_def)
  from r select_username_commits [OF h1 m1]
  show "returned (click_option elem st)"
    and "popup_display (page_after (click_option elem st)) = ''none''"
    and "popup_children (page_after (click_option elem st)) = []"
    and "old_username (page_after (click_option elem st)) = None"
    and "input_focused (page_after (click_option elem st)) = input_focused st"
    and "sent (page_after (click_option elem st)) = sent st @ [UsernameSelect name]"
    and "available_options (page_after (click_option elem st)) = available_options st"
    and "current_option (page_after (click_option elem st)) = current_option st"
    by simp_all
next
  assume h: "main_present st \<and> current_option st = Some i \<and> 0 \<le> i
        \<and> i < int (length (available_options st))
        \<and> click_name (available_options st ! nat i) = Some name \<and> old_username st \<noteq> Some name"
  let ?s1 = "st\<lparr>input_focused := False\<rparr>"
  from h have r: "confirmSelect False st = Inr (page_after (select_username name ?s1))"
    by (simp add: confirmSelect_def click_option_def Let_def)
  from h have h1: "old_username ?s1 \<noteq> Some name" and m1: "main_present ?s1" by simp_all
  from r show "returned (confirmSelect False st)" by (simp add: returned_def)
  from r select_username_commits [OF h1 m1]
  show "popup_display (page_after (confirmSelect False st)) = ''none''"
    and "popup_children (page_after (confirmSelect False st)) = []"
    and "old_username (page_after (confirmSelect False st)) = None"
    and "\<not> input_focused (page_after (confirmSelect False st))"
    and "sent (page_after (confirmSelect False st)) = sent st @ [UsernameSelect name]"
    and "available_options (page_after (confirmSelect False st)) = available_options st"
    and "current_option (page_after (confirmSelect False st)) = current_option st"
    by (simp_all add: page_after_def)
qed

theorem commit_closes_and_sends_once_witness:
  "main_present bob_typed_over_suggestions
   \<and> old_username bob_typed_over_suggestions \<noteq> Some (input_value bob_typed_over_suggestions)
   \<and> returned (confirmSelect True bob_typed_over_suggestions)
   \<and> popup_display (page_after (confirmSelect True bob_typed_over_suggestions)) = ''none''
   \<and> \<not> input_focused (page_after (confirmSelect True bob_typed_over_suggestions))
   \<and> sent (page_after (confirmSelect True bob_typed_over_suggestions))
       = [UsernameSuggestions ''alice'', UsernameSuggestions ''bob'', UsernameSelect ''bob'']
   \<and> main_present bob_highlighted
   \<and> current_option bob_highlighted = Some 1
   \<and> click_name (available_options bob_highlighted ! nat 1) = Some ''bob''
   \<and> old_username bob_highlighted \<noteq> Some ''bob''
   \<and> returned (click_option (available_options bob_highlighted ! nat 1) bob_highlighted)
   \<and> old_username (page_after (click_option (available_options bob_highlighted ! nat 1) bob_highlighted)) = None
   \<and> sent (page_after (click_option (available_options bob_highlighted ! nat 1) bob_highlighted))
       = [UsernameSuggestions ''alice'', UsernameSelect ''bob'']
   \<and> returned (confirmSelect False bob_highlighted)
   \<and> \<not> input_focused (page_after (confirmSelect False bob_highlighted))
   \<and> sent (page_after (confirmSelect False bob_highlighted))
       = [UsernameSuggestions ''alice'', UsernameSelect ''bob'']"
proof -
  have ma: "main_present bob_typed_over_suggestions"
    and a: "old_username bob_typed_over_suggestions \<noteq> Some (input_value bob_typed_over_suggestions)"
    and sa: "sent bob_typed_over_suggestions = [UsernameSuggestions ''alice'', UsernameSuggestions ''bob'']"
    and va: "input_value bob_typed_over_suggestions = ''bob''"
    by (simp_all add: bob_typed_over_suggestions_def script_defs)
  have mb: "main_present bob_highlighted"
    and b: "current_option bob_highlighted = Some 1"
    and l: "(1::int) < int (length (available_options bob_highlighted))"
    and n: "click_name (available_options bob_highlighted ! nat 1) = Some ''bob''"
    and ob: "old_username bob_highlighted \<noteq> Some ''bob''"
    and sb: "sent bob_highlighted = [UsernameSuggestions ''alice'']"
    by (simp_all add: bob_highlighted_def script_defs)
  note forced = commit_closes_and_sends_once [where st = bob_typed_over_suggestions]
  note soft = commit_closes_and_sends_once
                [where st = bob_highlighted and i = 1 and name = "''bob''"
                   and elem = "available_options bob_highlighted ! nat 1"]
  from forced ma a sa va
  have "returned (confirmSelect True bob_typed_over_suggestions)
      \<and> popup_display (page_after (confirmSelect True bob_typed_over_suggestions)) = ''none''
      \<and> \<not> input_focused (page_after (confirmSelect True bob_typed_over_suggestions))
      \<and> sent (page_after (confirmSelect True bob_typed_over_suggestions))
          = [UsernameSuggestions ''alice'', UsernameSuggestions ''bob'', UsernameSelect ''bob'']"
    by simp
  moreover from soft mb b l n ob sb
  have "returned (click_option (available_options bob_highlighted ! nat 1) bob_highlighted)
      \<and> old_username (page_after (click_option (available_options bob_highlighted ! nat 1) bob_highlighted)) = None
      \<and> sent (page_after (click_option (available_options bob_highlighted ! nat 1) bob_highlighted))
          = [UsernameSuggestions ''alice'', UsernameSelect ''bob'']
      \<and> returned (confirmSelect False bob_highlighted)
      \<and> \<not> input_focused (page_after (confirmSelect False bob_highlighted))
      \<and> sent (page_after (confirmSelect False bob_highlighted))
          = [UsernameSuggestions ''alice'', UsernameSelect ''bob'']"
    by simp
  ultimately show ?thesis using ma mb a b n ob by simp
qed

subsection \<open>Suggestions replies\<close>

lemma upt_shift: "[n ..< n + Suc k] = n # [Suc n ..< Suc n + k]"
  by (simp add: upt_conv_Cons del: upt_Suc)

lemma append_suggestions_entries:
  "append_suggestions (map Entry ss) st =
     Inr (st\<lparr>available_options := available_options st @ map suggestion_elem ss,
             popup_children := popup_children st
                                 @ [length (available_options st) ..< length (available_options st) + length ss]\<rparr>)"
proof (induction ss arbitrary: st)
  case Nil
  show ?case by simp
next
  case (Cons i rest)
  have "[length (available_options st) ..< length (available_options st) + length (i # rest)]
        = length (available_options st)
            # [Suc (length (available_options st)) ..< Suc (length (available_options st)) + length rest]"
    using upt_shift [of "length (available_options st)" "length rest"] by simp
  then show ?case by (simp add: Cons.IH del: upt_Suc)
qed

lemma apply_nonempty:
  "ss \<noteq> [] \<Longrightarrow>
   apply_username_suggestions (reply ss) st =
     Inr (st\<lparr>current_option := None,
             available_options := map suggestion_elem ss,
             popup_display := ''flex'',
             popup_children := [0 ..< length ss]\<rparr>)"
  by (simp add: apply_username_suggestions_def reply_def append_suggestions_entries)

lemma outside_popup_update:
  "outside_popup (st\<lparr>current_option := c\<rparr>) = outside_popup st"
  "outside_popup (st\<lparr>available_options := xs\<rparr>) = outside_popup st"
  "outside_popup (st\<lparr>popup_display := d\<rparr>) = outside_popup st"
  "outside_popup (st\<lparr>popup_children := ch\<rparr>) = outside_popup st"
  by (simp_all add: outside_popup_def)

lemma apply_nonempty_outside:
  "ss \<noteq> [] \<Longrightarrow>
   apply_username_suggestions (reply ss) st =
     Inr ((outside_popup st)\<lparr>current_option := None,
             available_options := map suggestion_elem ss,
             popup_display := ''flex'',
             popup_children := [0 ..< length ss]\<rparr>)"
  by (simp add: apply_nonempty outside_popup_def)

lemma outside_popup_append_suggestions:
  "outside_popup (page_after (append_suggestions es st)) = outside_popup st"
proof (induction es st rule: append_suggestions.induct)
  case (1 st)
  show ?case by (simp add: page_after_def)
next
  case (2 rest st)
  show ?case by (simp add: page_after_def outside_popup_update)
next
  case (3 i rest st)
  then show ?case by (simp add: outside_popup_update)
qed

lemma outside_popup_apply:
  "outside_popup (page_after (apply_username_suggestions sugg st)) = outside_popup st"
proof (cases sugg)
  case Missing
  then show ?thesis by (simp add: apply_username_suggestions_def page_after_def)
next
  case (NotIterable z)
  then show ?thesis
    by (simp add: apply_username_suggestions_def page_after_def outside_popup_update)
next
  case (Items es)
  show ?thesis
  proof (cases "es = []")
    case True
    with Items show ?thesis by (simp add: apply_username_suggestions_def page_after_def)
  next
    case False
    with Items show ?thesis
      by (simp add: apply_username_suggestions_def outside_popup_append_suggestions
            outside_popup_update)
  qed
qed

lemma outside_popup_changeSelection:
  assumes "\<And>s. outside_popup (f s) = outside_popup s"
  shows "outside_popup (page_after (changeSelection f st)) = outside_popup st"
proof (cases "available_options st = []")
  case True
  then show ?thesis by (simp add: changeSelection_def page_after_def)
next
  case False
  let ?s1 = "st\<lparr>available_options := map (\<lambda>i. i\<lparr>ariaSelected := ''false''\<rparr>) (available_options st)\<rparr>"
  have "outside_popup (f ?s1) = outside_popup st"
    using assms [of ?s1] by (simp add: outside_popup_update)
  with False show ?thesis
    by (simp add: changeSelection_def page_after_def Let_def outside_popup_update
             split: option.split)
qed

lemma outside_popup_selectNext:
  "outside_popup (page_after (selectNext st)) = outside_popup st"
  unfolding selectNext_def
  by (rule outside_popup_changeSelection) (simp add: outside_popup_update split: option.split)

lemma outside_popup_selectPrev:
  "outside_popup (page_after (selectPrev st)) = outside_popup st"
  unfolding selectPrev_def
  by (rule outside_popup_changeSelection) (simp add: outside_popup_update split: option.split)

text \<open>
  Claim C10, as stated, for a reply with two suggestions followed by an empty reply: the
  empty reply returns at once, so the options of the earlier reply stay, where the empty
  reply alone leaves no options.
\<close>

theorem empty_reply_does_not_win:
  "available_options
     (page_after (apply_username_suggestions (reply [])
        (page_after (apply_username_suggestions (reply alice_bob) (initial_page [] [] [])))))
     = map suggestion_elem alice_bob
   \<and> available_options
       (page_after (apply_username_suggestions (reply []) (initial_page [] [] []))) = []"
  by (simp add: apply_username_suggestions_def reply_def page_after_def initial_page_def
        alice_bob_def)

text \<open>
  Claim C10, amended. When the later reply \<open>B\<close> is not empty, processing an earlier
  \<open>suggestions\<close> value \<open>A\<close> of any kind and then \<open>B\<close> leaves the page that processing \<open>B\<close>
  alone leaves, also when the highlight was moved between the two: the options are those
  of \<open>B\<close>, nothing is highlighted, the popup is shown with one child per option.
\<close>

theorem later_reply_wins:
  assumes "B \<noteq> []"
  shows "apply_username_suggestions (reply B) (page_after (apply_username_suggestions A st))
           = apply_username_suggestions (reply B) st
       \<and> apply_username_suggestions (reply B)
           (page_after (selectNext (page_after (apply_username_suggestions A st))))
           = apply_username_suggestions (reply B) st
       \<and> apply_username_suggestions (reply B)
           (page_after (selectPrev (page_after (apply_username_suggestions A st))))
           = apply_username_suggestions (reply B) st
       \<and> returned (apply_username_suggestions (reply B) st)
       \<and> current_option (page_after (apply_username_suggestions (reply B) st)) = None
       \<and> available_options (page_after (apply_username_suggestions (reply B) st)) = map suggestion_elem B
       \<and> popup_display (page_after (apply_username_suggestions (reply B) st)) = ''flex''
       \<and> popup_children (page_after (apply_username_suggestions (reply B) st)) = [0 ..< length B]"
proof -
  let ?a = "page_after (apply_username_suggestions A st)"
  have 1: "apply_username_suggestions (reply B) ?a = apply_username_suggestions (reply B) st"
    using assms by (simp add: apply_nonempty_outside outside_popup_apply)
  have 2: "apply_username_suggestions (reply B) (page_after (selectNext ?a))
             = apply_username_suggestions (reply B) st"
    using assms by (simp add: apply_nonempty_outside outside_popup_selectNext outside_popup_apply)
  have 3: "apply_username_suggestions (reply B) (page_after (selectPrev ?a))
             = apply_username_suggestions (reply B) st"
    using assms by (simp add: apply_nonempty_outside outside_popup_selectPrev outside_popup_apply)
  have 4: "returned (apply_username_suggestions (reply B) st)"
    and 5: "current_option (page_after (apply_username_suggestions (reply B) st)) = None"
    and 6: "available_options (page_after (apply_username_suggestions (reply B) st)) = map suggestion_elem B"
    and 7: "popup_display (page_after (apply_username_suggestions (reply B) st)) = ''flex''"
    and 8: "popup_children (page_after (apply_username_suggestions (reply B) st)) = [0 ..< length B]"
    using assms by (simp_all add: apply_nonempty returned_def page_after_def)
  from 1 2 3 4 5 6 7 8 show ?thesis by blast
qed

theorem later_reply_wins_witness:
  "carol \<noteq> []
   \<and> apply_username_suggestions (reply carol)
        (page_after (apply_username_suggestions (reply alice_bob) alice_clicked))
       = apply_username_suggestions (reply carol) alice_clicked
   \<and> apply_username_suggestions (reply carol)
        (page_after (selectNext (page_after (apply_username_suggestions (reply alice_bob) alice_clicked))))
       = apply_username_suggestions (reply carol) alice_clicked
   \<and> current_option (page_after (apply_username_suggestions (reply carol) alice_clicked)) = None
   \<and> map click_name (available_options (page_after (apply_username_suggestions (reply carol) alice_clicked)))
       = [Some ''carol'']"
proof -
  have c: "carol \<noteq> []" by (simp add: carol_def)
  show ?thesis
    using later_reply_wins [OF c, of "reply alice_bob" alice_clicked] c
    by (simp add: carol_def suggestion_elem_def)
qed

subsection \<open>The invariant\<close>

lemma inv_initial_page: "page_inv (initial_page v m r)"
  by (simp add: page_inv_def highlight_valid_def initial_page_def)

lemma page_inv_update:
  "page_inv (st\<lparr>old_username := ou\<rparr>) = page_inv st"
  "page_inv (st\<lparr>input_value := iv\<rparr>) = page_inv st"
  "page_inv (st\<lparr>input_focused := fo\<rparr>) = page_inv st"
  "page_inv (st\<lparr>input_selected := se\<rparr>) = page_inv st"
  "page_inv (st\<lparr>popup_children := ch\<rparr>) = page_inv st"
  "page_inv (st\<lparr>main_present := mp\<rparr>) = page_inv st"
  "page_inv (st\<lparr>main_html := mh\<rparr>) = page_inv st"
  "page_inv (st\<lparr>refresh_time := rt\<rparr>) = page_inv st"
  "page_inv (st\<lparr>sent := sn\<rparr>) = page_inv st"
  "page_inv (st\<lparr>console := co\<rparr>) = page_inv st"
  by (simp_all add: page_inv_def highlight_valid_def split: option.split)

lemma page_inv_hide: "page_inv st \<Longrightarrow> page_inv (st\<lparr>popup_display := ''none''\<rparr>)"
  by (simp add: page_inv_def highlight_valid_def split: option.splits)

lemma inv_close_popup: "page_inv st \<Longrightarrow> page_inv (close_popup reset st)"
  by (simp add: close_popup_def Let_def page_inv_update page_inv_hide split: option.split)

lemma inv_set_username: "page_inv st \<Longrightarrow> page_inv (page_after (set_username name st))"
  by (simp add: set_username_def Let_def page_after_def page_inv_update inv_close_popup)

lemma inv_select_username: "page_inv st \<Longrightarrow> page_inv (page_after (select_username name st))"
  by (simp add: select_username_def Let_def page_after_def page_inv_update inv_close_popup)

lemma inv_click_option: "page_inv st \<Longrightarrow> page_inv (page_after (click_option elem st))"
  by (cases "click_name elem") (simp_all add: click_option_def inv_select_username, simp add: page_after_def)

lemma inv_reset_click: "page_inv st \<Longrightarrow> page_inv (page_after (reset_click st))"
  by (simp add: reset_click_def Let_def page_after_def page_inv_update inv_close_popup)

lemma inv_selectNext: "page_inv st \<Longrightarrow> page_inv (page_after (selectNext st))"
  by (auto simp add: page_inv_def highlight_valid_def selectNext_def changeSelection_def
        page_after_def Let_def split: option.splits)

lemma inv_selectPrev: "page_inv st \<Longrightarrow> page_inv (page_after (selectPrev st))"
  by (auto simp add: page_inv_def highlight_valid_def selectPrev_def changeSelection_def
        page_after_def Let_def split: option.splits)

lemma inv_confirmSelect: "page_inv st \<Longrightarrow> page_inv (page_after (confirmSelect enter_pressed st))"
proof -
  assume i: "page_inv st"
  then have i1: "page_inv (st\<lparr>input_focused := False\<rparr>)"
    and i2: "page_inv (st\<lparr>input_focused := False, console := console st @ [Log ''force-select'']\<rparr>)"
    by (simp_all add: page_inv_update)
  have a: "page_after (Inr s) = s" for s by (simp add: page_after_def)
  have b: "page_after (Inl (e, s)) = s" for e s by (simp add: page_after_def)
  show ?thesis
    using inv_select_username [OF i2] inv_click_option [OF i1] inv_close_popup [OF i1]
    by (simp add: confirmSelect_def Let_def a b i1 split: option.split)
qed

lemma append_suggestions_highlight:
  "current_option (page_after (append_suggestions es st)) = current_option st"
proof (induction es st rule: append_suggestions.induct)
  case (1 st)
  show ?case by (simp add: page_after_def)
next
  case (2 rest st)
  show ?case by (simp add: page_after_def)
next
  case (3 i rest st)
  then show ?case by simp
qed

lemma append_suggestions_nonempty:
  "es \<noteq> [] \<or> available_options st \<noteq> [] \<Longrightarrow>
   available_options (page_after (append_suggestions es st)) \<noteq> []"
proof (induction es st rule: append_suggestions.induct)
  case (1 st)
  then show ?case by (simp add: page_after_def)
next
  case (2 rest st)
  show ?case by (simp add: page_after_def)
next
  case (3 i rest st)
  then show ?case by simp
qed

lemma inv_apply_username_suggestions:
  assumes "sugg \<noteq> NotIterable False" and "page_inv st"
  shows "page_inv (page_after (apply_username_suggestions sugg st))"
proof (cases sugg)
  case Missing
  with assms show ?thesis by (simp add: apply_username_suggestions_def page_after_def)
next
  case (NotIterable z)
  with assms show ?thesis by (simp add: apply_username_suggestions_def page_after_def)
next
  case (Items es)
  show ?thesis
  proof (cases "es = []")
    case True
    with Items assms show ?thesis by (simp add: apply_username_suggestions_def page_after_def)
  next
    case False
    let ?s1 = "st\<lparr>current_option := None, available_options := [],
                  popup_display := ''flex'', popup_children := []\<rparr>"
    have "current_option (page_after (append_suggestions es ?s1)) = None"
      by (simp add: append_suggestions_highlight)
    moreover have "available_options (page_after (append_suggestions es ?s1)) \<noteq> []"
      using False by (simp add: append_suggestions_nonempty)
    ultimately have "page_inv (page_after (append_suggestions es ?s1))"
      by (simp add: page_inv_def highlight_valid_def)
    with Items False show ?thesis by (simp add: apply_username_suggestions_def)
  qed
qed

lemma inv_on_message:
  assumes "within_protocol (Message now fr)" and "page_inv st"
  shows "page_inv (page_after (on_message now fr st))"
proof (cases fr)
  case NotJson
  with assms show ?thesis by (simp add: on_message_def page_after_def)
next
  case JsonNull
  with assms show ?thesis by (simp add: on_message_def page_after_def)
next
  case (Json d)
  note i = assms(2)
  have u: "page_inv (page_after (
             let st1 = st\<lparr>console := console st @ [Log ''replacing main'']\<rparr>
             in if \<not> main_present st1 then Inl (TypeError, st1)
                else Inr (update_last_refreshed now
                            (case main_contents d of
                               None \<Rightarrow> st1\<lparr>main_present := False, main_html := ''undefined''\<rparr>
                             | Some f \<Rightarrow> st1\<lparr>main_present := has_main f, main_html := markup f\<rparr>))))"
    using i
    by (simp add: Let_def page_after_def update_last_refreshed_def page_inv_update
          split: option.split)
  have l: "page_inv (st\<lparr>console := console st @ [LogUnknownMessage d]\<rparr>)"
    using i by (simp add: page_inv_update)
  have s: "key d = Some ''UsernameSuggestions'' \<Longrightarrow>
           page_inv (page_after (apply_username_suggestions (suggestions d) st))"
    using assms Json by (simp add: inv_apply_username_suggestions)
  have a: "page_after (Inr s) = s" for s by (simp add: page_after_def)
  show ?thesis
    using Json u l s inv_set_username [OF i, of "new_name d"]
    by (simp add: on_message_def a)
qed

lemma inv_set_old_username: "page_inv st \<Longrightarrow> page_inv (set_old_username st)"
  by (simp add: set_old_username_def page_inv_update split: option.split)

lemma inv_ask_suggestions: "page_inv st \<Longrightarrow> page_inv (ask_suggestions st)"
  by (simp add: ask_suggestions_def page_inv_update)

lemma inv_input_keydown: "page_inv st \<Longrightarrow> page_inv (page_after (input_keydown ev st))"
proof -
  assume "page_inv st"
  then have i: "page_inv (set_old_username st)" by (rule inv_set_old_username)
  show ?thesis
    using inv_selectNext [OF i] inv_selectPrev [OF i] inv_confirmSelect [OF i, of True]
      inv_close_popup [OF i, of True] i
    by (simp add: input_keydown_def Let_def) (simp add: page_after_def)
qed

lemma inv_step:
  assumes "within_protocol e" and "page_inv st"
  shows "page_inv (step st e)"
proof (cases e)
  case (Message now fr)
  with assms show ?thesis by (simp add: inv_on_message)
next
  case ResetClick
  with assms show ?thesis by (simp add: inv_reset_click)
next
  case InputClick
  with assms show ?thesis
    by (simp add: input_click_def inv_set_old_username inv_ask_suggestions)
next
  case (InputKeydown ev)
  with assms show ?thesis by (simp add: inv_input_keydown)
next
  case (DocumentKeydown ev)
  with assms show ?thesis
    by (simp add: document_keydown_def page_inv_update)
next
  case (DocumentClick chain)
  with assms show ?thesis by (simp add: document_click_def inv_close_popup)
next
  case (InputInput v)
  from assms have "page_inv (st\<lparr>input_value := v\<rparr>)" by (simp add: page_inv_update)
  with InputInput show ?thesis by (simp add: input_input_def inv_ask_suggestions)
next
  case (OptionClick k)
  with assms show ?thesis by (simp add: inv_click_option)
next
  case ConfirmSoft
  with assms show ?thesis by (simp add: inv_confirmSelect)
qed

lemma inv_run: "list_all within_protocol evs \<Longrightarrow> page_inv st \<Longrightarrow> page_inv (run st evs)"
  unfolding run_def
  by (induction evs arbitrary: st) (simp_all add: inv_step)

text \<open>
  Claim C8. The option list is \<open>available_options\<close>, the highlighted index \<open>current_option\<close>,
  and the popup is closed when its \<open>display\<close> is \<open>none\<close>. Starting from the initial page,
  after any sequence of listener calls (reset, clicks, keys, edits, option clicks, soft
  confirms, and frames: those of the protocol, and also frames that are not JSON, that
  have an unknown key, that lack a property or that list a \<open>null\<close> entry), also those that
  throw: the index is \<open>null\<close> or a valid index into the option list, and with an empty
  option list the popup is closed and the index is \<open>null\<close>. The one kind of frame left out
  is a \<open>UsernameSuggestions\<close> frame whose payload is not a list at all.
\<close>

theorem reachable_pages_keep_invariant:
  "list_all within_protocol evs \<Longrightarrow> page_inv (run (initial_page v m r) evs)"
  by (rule inv_run) (simp_all add: inv_initial_page)

theorem reachable_pages_keep_invariant_witness:
  "list_all within_protocol [InputClick, InputInput ''bob'', ResetClick]
   \<and> available_options (run (initial_page ''alice'' [] []) [InputClick, InputInput ''bob'', ResetClick]) = []
   \<and> popup_display (run (initial_page ''alice'' [] []) [InputClick, InputInput ''bob'', ResetClick]) = ''none''
   \<and> current_option (run (initial_page ''alice'' [] []) [InputClick, InputInput ''bob'', ResetClick]) = None
   \<and> list_all within_protocol
        [InputClick, Message ''12:00'' (suggestions_frame alice_bob),
         InputKeydown (key_press ''ArrowDown''), InputKeydown (key_press ''ArrowDown'')]
   \<and> current_option two_options_second = Some 1
   \<and> 1 < int (length (available_options two_options_second))"
proof -
  have p1: "list_all within_protocol [InputClick, InputInput ''bob'', ResetClick]"
    by simp
  have p2: "list_all within_protocol
              [InputClick, Message ''12:00'' (suggestions_frame alice_bob),
               InputKeydown (key_press ''ArrowDown''), InputKeydown (key_press ''ArrowDown'')]"
    by (simp add: suggestions_frame_def reply_def)
  have a: "available_options (run (initial_page ''alice'' [] []) [InputClick, InputInput ''bob'', ResetClick]) = []"
    by (simp add: script_defs)
  have c: "current_option two_options_second = Some 1"
    by (simp add: two_options_second_def script_defs)
  from reachable_pages_keep_invariant [OF p1, of "''alice''" "[]" "[]"] a
  have "popup_display (run (initial_page ''alice'' [] []) [InputClick, InputInput ''bob'', ResetClick]) = ''none''
      \<and> current_option (run (initial_page ''alice'' [] []) [InputClick, InputInput ''bob'', ResetClick]) = None"
    by (simp add: page_inv_def)
  moreover
  from reachable_pages_keep_invariant [OF p2, of "''alice''" "[]" "[]"] c
  have "1 < int (length (available_options two_options_second))"
    by (simp add: page_inv_def highlight_valid_def two_options_second_def)
  ultimately show ?thesis using p1 p2 a c by simp
qed

end
